theory Spec2Isabelle
  imports Complex_Main "HOL-Library.Char_ord" "HOL-Library.List_Lexorder" "HOL-Library.Multiset"
begin

section \<open>The emissions dashboard: loading, filtering and aggregation\<close>

text \<open>
  The program is one script, \<^verbatim>\<open>Data_Visualization_Project_First_Draft.py\<close>. It loads a
  spreadsheet with \<^verbatim>\<open>load_data\<close>, narrows the loaded frame with \<^verbatim>\<open>df.query\<close> and
  sums the column \<^verbatim>\<open>Emissions\<close> along several groupings.

  Conventions of the embedding.
  \<^item> A data frame is the list of its rows, in frame order. The frame \<^verbatim>\<open>pd.DataFrame()\<close>
    is the empty list.
  \<^item> A value that pandas would hold as \<^verbatim>\<open>NaN\<close>, \<^verbatim>\<open>NaT\<close> or \<^verbatim>\<open>None\<close> is \<open>None\<close>.
  \<^item> A cell of the column \<^verbatim>\<open>MtCO2 per day\<close> holds a finite number, embedded as the
    \<open>real\<close> it denotes; texts are ASCII.
  \<^item> A Python call either returns or raises: a result is \<open>exn + 'a\<close>, \<open>Inl\<close> the
    exception.
  \<^item> What the script shows through \<^verbatim>\<open>st.error\<close>, \<^verbatim>\<open>st.info\<close> and \<^verbatim>\<open>st.warning\<close> is
    returned as a list of outputs next to the result.
  \<^item> What the script leaves to pandas and numpy and what differs between their versions
    or builds is a parameter: the texts read as missing values, the dates the datetime
    type can hold, the sum of a group and the default sort.
\<close>

subsection \<open>Dates and the format \<^verbatim>\<open>%d/%m/%Y\<close>\<close>

datatype month =
    January | February | March | April | May | June
  | July | August | September | October | November | December

record timestamp =
  year :: int
  month :: month
  day :: nat

text \<open>\<^verbatim>\<open>Series.dt.month_name()\<close>: the full English name of the month.\<close>

definition month_name :: "timestamp \<Rightarrow> string" where
  "month_name t =
     (case month t of
        January \<Rightarrow> ''January'' | February \<Rightarrow> ''February'' | March \<Rightarrow> ''March''
      | April \<Rightarrow> ''April'' | May \<Rightarrow> ''May'' | June \<Rightarrow> ''June''
      | July \<Rightarrow> ''July'' | August \<Rightarrow> ''August'' | September \<Rightarrow> ''September''
      | October \<Rightarrow> ''October'' | November \<Rightarrow> ''November'' | December \<Rightarrow> ''December'')"

definition month_number :: "month \<Rightarrow> nat" where
  "month_number m =
     (case m of
        January \<Rightarrow> 1 | February \<Rightarrow> 2 | March \<Rightarrow> 3 | April \<Rightarrow> 4 | May \<Rightarrow> 5 | June \<Rightarrow> 6
      | July \<Rightarrow> 7 | August \<Rightarrow> 8 | September \<Rightarrow> 9 | October \<Rightarrow> 10 | November \<Rightarrow> 11
      | December \<Rightarrow> 12)"

definition month_of_number :: "nat \<Rightarrow> month option" where
  "month_of_number n =
     (if n = 1 then Some January else if n = 2 then Some February
      else if n = 3 then Some March else if n = 4 then Some April
      else if n = 5 then Some May else if n = 6 then Some June
      else if n = 7 then Some July else if n = 8 then Some August
      else if n = 9 then Some September else if n = 10 then Some October
      else if n = 11 then Some November else if n = 12 then Some December
      else None)"

definition digit :: "char \<Rightarrow> nat option" where
  "digit c = (let n = (of_char c :: nat) in if 48 \<le> n \<and> n \<le> 57 then Some (n - 48) else None)"

text \<open>
  The directive \<^verbatim>\<open>%d\<close> matches \<^verbatim>\<open>3[0-1]|[1-2]\d|0[1-9]|[1-9]| [1-9]\<close>, the directive
  \<^verbatim>\<open>%m\<close> matches \<^verbatim>\<open>1[0-2]|0[1-9]|[1-9]\<close> and \<^verbatim>\<open>%Y\<close> matches four digits.
\<close>

fun day_field :: "string \<Rightarrow> nat option" where
  "day_field [c] = (case digit c of Some d \<Rightarrow> if 1 \<le> d then Some d else None | None \<Rightarrow> None)"
| "day_field [a, b] =
     (if a = CHR '' '' then (case digit b of Some d \<Rightarrow> if 1 \<le> d then Some d else None | None \<Rightarrow> None)
      else (case digit a of
              None \<Rightarrow> None
            | Some x \<Rightarrow> (case digit b of
                None \<Rightarrow> None
              | Some y \<Rightarrow> if 1 \<le> 10 * x + y \<and> 10 * x + y \<le> 31 then Some (10 * x + y) else None)))"
| "day_field _ = None"

fun month_digits :: "string \<Rightarrow> nat option" where
  "month_digits [c] = (case digit c of Some d \<Rightarrow> if 1 \<le> d then Some d else None | None \<Rightarrow> None)"
| "month_digits [a, b] =
     (case digit a of
        None \<Rightarrow> None
      | Some x \<Rightarrow> (case digit b of
          None \<Rightarrow> None
        | Some y \<Rightarrow> if 1 \<le> 10 * x + y \<and> 10 * x + y \<le> 12 then Some (10 * x + y) else None))"
| "month_digits _ = None"

definition month_field :: "string \<Rightarrow> month option" where
  "month_field s = (case month_digits s of None \<Rightarrow> None | Some n \<Rightarrow> month_of_number n)"

fun year_field :: "string \<Rightarrow> int option" where
  "year_field [a, b, c, d] =
     (case digit a of
        None \<Rightarrow> None
      | Some w \<Rightarrow> (case digit b of
          None \<Rightarrow> None
        | Some x \<Rightarrow> (case digit c of
            None \<Rightarrow> None
          | Some y \<Rightarrow> (case digit d of
              None \<Rightarrow> None
            | Some z \<Rightarrow> Some (int (1000 * w + 100 * x + 10 * y + z))))))"
| "year_field _ = None"

definition is_leap :: "int \<Rightarrow> bool" where
  "is_leap y = (y mod 4 = 0 \<and> (y mod 100 \<noteq> 0 \<or> y mod 400 = 0))"

definition days_in_month :: "int \<Rightarrow> month \<Rightarrow> nat" where
  "days_in_month y m =
     (case m of
        February \<Rightarrow> (if is_leap y then 29 else 28)
      | April \<Rightarrow> 30 | June \<Rightarrow> 30 | September \<Rightarrow> 30 | November \<Rightarrow> 30
      | _ \<Rightarrow> 31)"

text \<open>The text before the first \<^verbatim>\<open>/\<close> and the text after it.\<close>

definition split_slash :: "string \<Rightarrow> (string \<times> string) option" where
  "split_slash s =
     (case dropWhile (\<lambda>c. c \<noteq> CHR ''/'') s of
        [] \<Rightarrow> None
      | _ # rest \<Rightarrow> Some (takeWhile (\<lambda>c. c \<noteq> CHR ''/'') s, rest))"

text \<open>
  One text under \<^verbatim>\<open>format='%d/%m/%Y'\<close>: the whole text must match day, month and year in
  this order, and the three numbers must form a calendar date (year 0 and a day beyond the
  end of the month are refused). \<open>None\<close> is the \<^verbatim>\<open>ValueError\<close> of a text that does not
  match. Whether the datetime type can hold the date is checked by the conversion below.
\<close>

definition strptime_dmy :: "string \<Rightarrow> timestamp option" where
  "strptime_dmy s =
     (case split_slash s of
        None \<Rightarrow> None
      | Some (ds, r) \<Rightarrow> (case split_slash r of
          None \<Rightarrow> None
        | Some (ms, ys) \<Rightarrow> (case day_field ds of
            None \<Rightarrow> None
          | Some d \<Rightarrow> (case month_field ms of
              None \<Rightarrow> None
            | Some m \<Rightarrow> (case year_field ys of
                None \<Rightarrow> None
              | Some y \<Rightarrow>
                  if 1 \<le> y \<and> d \<le> days_in_month y m
                  then Some \<lparr>year = y, month = m, day = d\<rparr> else None)))))"

subsection \<open>What is left to pandas\<close>

text \<open>
  Three tables of pandas decide how cells are read, and they are not the same in every
  version: the texts that \<^verbatim>\<open>read_excel\<close> reads as a missing value (its default
  \<^verbatim>\<open>na_values\<close>), the texts that \<^verbatim>\<open>to_datetime\<close> reads as \<^verbatim>\<open>NaT\<close>, and the dates the
  datetime type can hold (nanosecond resolution before pandas 3). The loader takes them as
  a parameter.
\<close>

record pandas =
  na_values :: "string list"
  nat_strings :: "string list"
  in_bounds :: "timestamp \<Rightarrow> bool"

text \<open>
  The range of \<^verbatim>\<open>datetime64[ns]\<close> for a date at midnight: from 22 September 1677 to
  11 April 2262.
\<close>

definition ns_bounds :: "timestamp \<Rightarrow> bool" where
  "ns_bounds t =
     ((1677 < year t \<or>
       (year t = 1677 \<and> (9 < month_number (month t) \<or>
          (month_number (month t) = 9 \<and> 22 \<le> day t)))) \<and>
      (year t < 2262 \<or>
       (year t = 2262 \<and> (month_number (month t) < 4 \<or>
          (month_number (month t) = 4 \<and> day t \<le> 11)))))"

text \<open>The tables of pandas 2.2.\<close>

definition pandas_2 :: pandas where
  "pandas_2 =
     \<lparr>na_values = ['''', ''#N/A'', ''#N/A N/A'', ''#NA'', ''-1.#IND'', ''-1.#QNAN'', ''-NaN'',
        ''-nan'', ''1.#IND'', ''1.#QNAN'', ''<NA>'', ''N/A'', ''NA'', ''NULL'', ''NaN'', ''None'',
        ''n/a'', ''nan'', ''null''],
      nat_strings = [''NaT'', ''nat'', ''NAT'', ''nan'', ''NaN'', ''NAN''],
      in_bounds = ns_bounds\<rparr>"

subsection \<open>The spreadsheet and the frames\<close>

text \<open>
  A cell of the column \<^verbatim>\<open>Date\<close> is a native date of the spreadsheet or a text. A sheet
  row holds the cells of the four columns the script reads; a blank cell is \<open>None\<close>. The
  header lists the names of the columns the sheet has (others may be present); the cells of
  a column the header does not name are never read.
\<close>

datatype date_cell = DateValue timestamp | DateText string

record xl_row =
  xl_State :: "string option"
  xl_Date :: "date_cell option"
  xl_Sector :: "string option"
  xl_MtCO2_per_day :: "real option"

datatype source = Unreadable | Workbook "string list" "xl_row list"

text \<open>The frame \<^verbatim>\<open>df_clean\<close> before \<^verbatim>\<open>dropna\<close>: six columns, each value possibly missing.\<close>

record raw_row =
  raw_State :: "string option"
  raw_Date :: "timestamp option"
  raw_Sector :: "string option"
  raw_Emissions :: "real option"
  raw_Year :: "int option"
  raw_Month :: "string option"

text \<open>A row of the frame that \<^verbatim>\<open>load_data\<close> returns; the fields are the columns.\<close>

record row =
  State :: string
  Date :: timestamp
  Sector :: string
  Emissions :: real
  Year :: int
  Month :: string

datatype exn =
    SourceUnreadable
  | UsecolsMismatch "string list"
  | TimeDataMismatch string
  | OutOfBoundsDatetime
  | LengthsMustMatch nat nat

datatype st_output =
    Critical_Error_loading_data exn
  | Info_openpyxl_or_corrupt
  | Info_Filepath_used
  | Warning_Data_loaded_but_empty
  | Error_converting_Date_column exn
  | Info_check_Date_format

subsection \<open>\<^verbatim>\<open>load_data\<close>\<close>

definition relevant_cols :: "string list" where
  "relevant_cols = [''State'', ''Date'', ''Sector'', ''MtCO2 per day'']"

text \<open>A text cell as \<^verbatim>\<open>read_excel\<close> delivers it: missing when it is one of \<^verbatim>\<open>na_values\<close>.\<close>

definition na_text :: "pandas \<Rightarrow> string option \<Rightarrow> string option" where
  "na_text pd c =
     (case c of
        None \<Rightarrow> None
      | Some s \<Rightarrow> if s \<in> set (na_values pd) then None else Some s)"

definition na_date :: "pandas \<Rightarrow> date_cell option \<Rightarrow> date_cell option" where
  "na_date pd c =
     (case c of
        None \<Rightarrow> None
      | Some (DateValue t) \<Rightarrow> Some (DateValue t)
      | Some (DateText s) \<Rightarrow> if s \<in> set (na_values pd) then None else Some (DateText s))"

definition read_row :: "pandas \<Rightarrow> xl_row \<Rightarrow> xl_row" where
  "read_row pd x =
     \<lparr>xl_State = na_text pd (xl_State x), xl_Date = na_date pd (xl_Date x),
      xl_Sector = na_text pd (xl_Sector x), xl_MtCO2_per_day = xl_MtCO2_per_day x\<rparr>"

text \<open>
  \<^verbatim>\<open>pd.read_excel(filepath, usecols=relevant_cols)\<close>: raises when the file cannot be read
  and when a name of \<^verbatim>\<open>usecols\<close> is not a column of the sheet.
\<close>

definition read_excel :: "pandas \<Rightarrow> source \<Rightarrow> string list \<Rightarrow> exn + xl_row list" where
  "read_excel pd src usecols =
     (case src of
        Unreadable \<Rightarrow> Inl SourceUnreadable
      | Workbook header body \<Rightarrow>
          (case filter (\<lambda>c. c \<notin> set header) usecols of
             [] \<Rightarrow> Inr (map (read_row pd) body)
           | missing \<Rightarrow> Inl (UsecolsMismatch missing)))"

text \<open>
  \<^verbatim>\<open>pd.api.types.is_datetime64_any_dtype(df_clean['Date'])\<close>: the column was read as
  dates, which is when it has a native date, no text, and no date the datetime type cannot
  hold (such a column stays a column of objects).
\<close>

definition is_datetime64_any_dtype :: "pandas \<Rightarrow> date_cell option list \<Rightarrow> bool" where
  "is_datetime64_any_dtype pd col =
     (list_ex (\<lambda>c. case c of Some (DateValue t) \<Rightarrow> True | _ \<Rightarrow> False) col \<and>
      list_all (\<lambda>c. case c of None \<Rightarrow> True | Some (DateValue t) \<Rightarrow> in_bounds pd t
                             | Some (DateText s) \<Rightarrow> False) col)"

text \<open>
  One value under \<^verbatim>\<open>pd.to_datetime(col, format='%d/%m/%Y')\<close> with the default
  \<^verbatim>\<open>errors='raise'\<close>: a missing value, an empty text and a text of \<^verbatim>\<open>nat_strings\<close>
  become \<^verbatim>\<open>NaT\<close>; a date stays; any other text is parsed. A text that does not match the
  format raises, and so does a date that the datetime type cannot hold.
\<close>

definition convert_cell :: "pandas \<Rightarrow> date_cell option \<Rightarrow> exn + timestamp option" where
  "convert_cell pd c =
     (case c of
        None \<Rightarrow> Inr None
      | Some (DateValue t) \<Rightarrow> if in_bounds pd t then Inr (Some t) else Inl OutOfBoundsDatetime
      | Some (DateText s) \<Rightarrow>
          if s = [] \<or> s \<in> set (nat_strings pd) then Inr None
          else (case strptime_dmy s of
                  None \<Rightarrow> Inl (TimeDataMismatch s)
                | Some t \<Rightarrow> if in_bounds pd t then Inr (Some t) else Inl OutOfBoundsDatetime))"

text \<open>The column is converted value by value; the first value that raises ends it.\<close>

fun to_datetime :: "pandas \<Rightarrow> date_cell option list \<Rightarrow> exn + timestamp option list" where
  "to_datetime pd [] = Inr []"
| "to_datetime pd (c # cs) =
     (case convert_cell pd c of
        Inl e \<Rightarrow> Inl e
      | Inr t \<Rightarrow> (case to_datetime pd cs of Inl e \<Rightarrow> Inl e | Inr ts \<Rightarrow> Inr (t # ts)))"

text \<open>The value of a column that is already of a datetime type.\<close>

definition datetime_values :: "date_cell option list \<Rightarrow> timestamp option list" where
  "datetime_values col = map (\<lambda>c. case c of Some (DateValue t) \<Rightarrow> Some t | _ \<Rightarrow> None) col"

text \<open>
  Lines 43 to 58 for one row: the column \<^verbatim>\<open>MtCO2 per day\<close> is renamed \<^verbatim>\<open>Emissions\<close>,
  the column \<^verbatim>\<open>Date\<close> holds the converted value, and \<^verbatim>\<open>Year\<close> and \<^verbatim>\<open>Month\<close> are
  taken from it (missing where the date is missing).
\<close>

definition derive :: "xl_row \<Rightarrow> timestamp option \<Rightarrow> raw_row" where
  "derive x t =
     \<lparr>raw_State = xl_State x, raw_Date = t, raw_Sector = xl_Sector x,
      raw_Emissions = xl_MtCO2_per_day x,
      raw_Year = map_option year t, raw_Month = map_option month_name t\<rparr>"

text \<open>\<^verbatim>\<open>dropna\<close>: a row stays when none of its six values is missing.\<close>

definition complete :: "raw_row \<Rightarrow> row option" where
  "complete r =
     (case raw_State r of None \<Rightarrow> None | Some st \<Rightarrow>
      (case raw_Date r of None \<Rightarrow> None | Some dt \<Rightarrow>
      (case raw_Sector r of None \<Rightarrow> None | Some se \<Rightarrow>
      (case raw_Emissions r of None \<Rightarrow> None | Some em \<Rightarrow>
      (case raw_Year r of None \<Rightarrow> None | Some yr \<Rightarrow>
      (case raw_Month r of None \<Rightarrow> None | Some mo \<Rightarrow>
         Some \<lparr>State = st, Date = dt, Sector = se, Emissions = em, Year = yr, Month = mo\<rparr>))))))"

definition dropna :: "raw_row list \<Rightarrow> row list" where
  "dropna rs = List.map_filter complete rs"

text \<open>Lines 45 to 50: the conversion of the column \<^verbatim>\<open>Date\<close>, which may raise.\<close>

definition convert_dates :: "pandas \<Rightarrow> xl_row list \<Rightarrow> exn + timestamp option list" where
  "convert_dates pd df_clean =
     (if \<not> is_datetime64_any_dtype pd (map xl_Date df_clean)
      then to_datetime pd (map xl_Date df_clean)
      else Inr (datetime_values (map xl_Date df_clean)))"

definition load_data :: "pandas \<Rightarrow> source \<Rightarrow> st_output list \<times> (exn + row list)" where
  "load_data pd filepath =
     (case read_excel pd filepath relevant_cols of
        Inl e \<Rightarrow>
          ([Critical_Error_loading_data e, Info_openpyxl_or_corrupt, Info_Filepath_used], Inr [])
      | Inr df_clean \<Rightarrow>
          if df_clean = [] then ([Warning_Data_loaded_but_empty], Inr [])
          else (case convert_dates pd df_clean of
                  Inl date_e \<Rightarrow>
                    ([Error_converting_Date_column date_e, Info_check_Date_format], Inr [])
                | Inr dates \<Rightarrow> ([], Inr (dropna (map2 derive df_clean dates)))))"

subsection \<open>The selection widgets and the filter\<close>

text \<open>\<^verbatim>\<open>Series.unique()\<close>: the distinct values, in order of first appearance.\<close>

fun unique :: "'a list \<Rightarrow> 'a list" where
  "unique [] = []"
| "unique (x # xs) = x # unique (filter (\<lambda>y. y \<noteq> x) xs)"

text \<open>
  Two kinds of Python sequence meet in the script: \<^verbatim>\<open>unique()\<close> returns a numpy array,
  while \<^verbatim>\<open>sorted(...)\<close>, \<^verbatim>\<open>tolist()\<close> and \<^verbatim>\<open>st.sidebar.multiselect\<close> return a list.
  The kind matters to \<^verbatim>\<open>DataFrame.query\<close> below.
\<close>

datatype 'a pyseq = PyList "'a list" | NdArray "'a list"

definition all_provinces :: "row list \<Rightarrow> string pyseq" where
  "all_provinces df = NdArray (unique (map State df))"

definition all_sectors :: "row list \<Rightarrow> string pyseq" where
  "all_sectors df = NdArray (unique (map Sector df))"

definition all_years :: "row list \<Rightarrow> int pyseq" where
  "all_years df = PyList (sort (unique (map Year df)))"

text \<open>What the three multiselect widgets return: Python lists, possibly empty.\<close>

record selection =
  selected_years :: "int list"
  selected_provinces :: "string list"
  selected_sectors :: "string list"

text \<open>
  A comparison \<^verbatim>\<open>column == @variable\<close> inside \<^verbatim>\<open>DataFrame.query\<close>. When the variable
  is a Python \<^verbatim>\<open>list\<close>, the expression parser rewrites \<^verbatim>\<open>==\<close> to \<^verbatim>\<open>in\<close>, a membership
  test for each row. Any other operand is left to the \<^verbatim>\<open>==\<close> of the column: against a
  numpy array it compares position by position and raises \<^verbatim>\<open>ValueError\<close> (lengths must
  match to compare) when the lengths differ.
\<close>

fun query_eq :: "'a list \<Rightarrow> 'a pyseq \<Rightarrow> exn + bool list" where
  "query_eq col (PyList vs) = Inr (map (\<lambda>x. x \<in> set vs) col)"
| "query_eq col (NdArray vs) =
     (if length col = length vs then Inr (map2 (=) col vs)
      else Inl (LengthsMustMatch (length col) (length vs)))"

text \<open>The rows of a frame at which a boolean mask is true.\<close>

definition select_rows :: "'a list \<Rightarrow> bool list \<Rightarrow> 'a list" where
  "select_rows df keep = map fst (filter snd (zip df keep))"

text \<open>
  \<^verbatim>\<open>df.query('Year == @selected_years & State == @selected_provinces & Sector == @selected_sectors')\<close>:
  the three comparisons are evaluated and joined by \<^verbatim>\<open>&\<close>.
\<close>

definition query :: "row list \<Rightarrow> int pyseq \<Rightarrow> string pyseq \<Rightarrow> string pyseq \<Rightarrow> exn + row list" where
  "query df years provinces sectors =
     (case query_eq (map Year df) years of
        Inl e \<Rightarrow> Inl e
      | Inr m1 \<Rightarrow> (case query_eq (map State df) provinces of
          Inl e \<Rightarrow> Inl e
        | Inr m2 \<Rightarrow> (case query_eq (map Sector df) sectors of
            Inl e \<Rightarrow> Inl e
          | Inr m3 \<Rightarrow> Inr (select_rows df (map2 (\<and>) (map2 (\<and>) m1 m2) m3)))))"

text \<open>
  Lines 106 to 117: an empty selection is replaced by all the values of the frame, then the
  frame is queried.
\<close>

definition df_filtered :: "row list \<Rightarrow> selection \<Rightarrow> exn + row list" where
  "df_filtered df s =
     query df
       (if selected_years s = [] then all_years df else PyList (selected_years s))
       (if selected_provinces s = [] then all_provinces df else PyList (selected_provinces s))
       (if selected_sectors s = [] then all_sectors df else PyList (selected_sectors s))"

subsection \<open>Aggregation\<close>

text \<open>
  The two key metrics of lines 135 and 136, the sum and the mean of the column, taken over
  the numbers the cells denote; the rounding of 64-bit floating point is not part of these
  two definitions.
\<close>

definition total_emissions :: "row list \<Rightarrow> real" where
  "total_emissions f = sum_list (map Emissions f)"

text \<open>\<^verbatim>\<open>Series.mean()\<close>: \<^verbatim>\<open>NaN\<close> (here \<open>None\<close>) on an empty column.\<close>

definition avg_daily_emissions :: "row list \<Rightarrow> real option" where
  "avg_daily_emissions f =
     (if f = [] then None else Some (sum_list (map Emissions f) / real (length f)))"

text \<open>
  \<^verbatim>\<open>groupby(key)['Emissions'].sum()\<close>: one entry for each value of the key, the keys in
  ascending order, with the sum of the emissions of the rows of that key, in row order.
  The sum of a group is the number pandas computes from the values of the group, in
  64-bit floating point or in 64-bit integers; it is the parameter \<open>tot\<close>, of which
  nothing is assumed but that the result is a number.
\<close>

definition groupby_sum ::
  "(real list \<Rightarrow> real) \<Rightarrow> (row \<Rightarrow> 'k::linorder) \<Rightarrow> row list \<Rightarrow> ('k \<times> real) list" where
  "groupby_sum tot key f =
     map (\<lambda>k. (k, tot (map Emissions (filter (\<lambda>r. key r = k) f))))
       (sort (unique (map key f)))"


text \<open>
  \<^verbatim>\<open>Series.nlargest(n)\<close>. When \<open>n\<close> is at least the length of the series, pandas returns
  \<^verbatim>\<open>sort_values(ascending=False).head(n)\<close>. Otherwise it negates the values, sorts them
  with a merge sort, which keeps entries of equal value in their order, and takes the
  first \<open>n\<close>.
\<close>

definition nlargest ::
  "(('k \<times> real) list \<Rightarrow> ('k \<times> real) list) \<Rightarrow> nat \<Rightarrow> ('k \<times> real) list \<Rightarrow> ('k \<times> real) list"
  where
  "nlargest srt n s =
     (if length s \<le> n then take n (srt s) else take n (sort_key (\<lambda>e. - snd e) s))"

text \<open>
  Line 92 is \<^verbatim>\<open>df.groupby('State')['Emissions'].sum().nlargest(5).index.tolist()\<close>;
  \<open>top_n_by_region\<close> is the series before \<^verbatim>\<open>.index\<close>, with the count as a parameter.
\<close>

definition top_n_by_region ::
  "(real list \<Rightarrow> real) \<Rightarrow> ((string \<times> real) list \<Rightarrow> (string \<times> real) list) \<Rightarrow>
   row list \<Rightarrow> nat \<Rightarrow> (string \<times> real) list" where
  "top_n_by_region tot srt df n = nlargest srt n (groupby_sum tot State df)"

definition top_5_provinces ::
  "(real list \<Rightarrow> real) \<Rightarrow> ((string \<times> real) list \<Rightarrow> (string \<times> real) list) \<Rightarrow>
   row list \<Rightarrow> string list" where
  "top_5_provinces tot srt df = map fst (top_n_by_region tot srt df 5)"

text \<open>Lines 174 and 175, and line 190.\<close>

definition province_data ::
  "(real list \<Rightarrow> real) \<Rightarrow> ((string \<times> real) list \<Rightarrow> (string \<times> real) list) \<Rightarrow>
   row list \<Rightarrow> (string \<times> real) list" where
  "province_data tot srt f = srt (groupby_sum tot State f)"

definition sector_data :: "(real list \<Rightarrow> real) \<Rightarrow> row list \<Rightarrow> (string \<times> real) list" where
  "sector_data tot f = groupby_sum tot Sector f"

subsection \<open>The script from the load to the key metrics\<close>

datatype outcome =
    Stop_empty_load
  | Stop_no_data_for_filters
  | Uncaught exn
  | Key_metrics real "real option"

text \<open>Lines 68 to 136, for a loaded frame and the state of the widgets.\<close>

definition dashboard :: "row list \<Rightarrow> selection \<Rightarrow> outcome" where
  "dashboard df s =
     (if df = [] then Stop_empty_load
      else (case df_filtered df s of
              Inl e \<Rightarrow> Uncaught e
            | Inr f \<Rightarrow>
                if f = [] then Stop_no_data_for_filters
                else Key_metrics (total_emissions f) (avg_daily_emissions f)))"

definition app :: "pandas \<Rightarrow> source \<Rightarrow> selection \<Rightarrow> outcome" where
  "app pd filepath s =
     (case snd (load_data pd filepath) of
        Inl e \<Rightarrow> Uncaught e
      | Inr df \<Rightarrow> dashboard df s)"

subsection \<open>The filter as the specification words it\<close>

text \<open>
  The subsequence of the records whose year, region and sector are each among the selected
  values, where an empty selection stands for all the values of the dataset.
\<close>

definition filter_spec :: "row list \<Rightarrow> selection \<Rightarrow> row list" where
  "filter_spec D s =
     filter (\<lambda>r.
        Year r \<in> (if selected_years s = [] then set (map Year D) else set (selected_years s)) \<and>
        State r \<in> (if selected_provinces s = [] then set (map State D)
                     else set (selected_provinces s)) \<and>
        Sector r \<in> (if selected_sectors s = [] then set (map Sector D)
                      else set (selected_sectors s))) D"

subsection \<open>Vocabulary for the statements about \<^verbatim>\<open>load_data\<close>\<close>

text \<open>What a cell of the column \<^verbatim>\<open>Date\<close> converts to; nothing when the conversion raises.\<close>

definition date_of_cell :: "pandas \<Rightarrow> date_cell option \<Rightarrow> timestamp option" where
  "date_of_cell pd c = (case convert_cell pd c of Inl e \<Rightarrow> None | Inr t \<Rightarrow> t)"

text \<open>
  A row, as read, that \<^verbatim>\<open>dropna\<close> keeps: region, sector and emissions are present and the
  date cell converts to a date. The record it is loaded as.
\<close>

definition kept :: "pandas \<Rightarrow> xl_row \<Rightarrow> bool" where
  "kept pd x = (xl_State x \<noteq> None \<and> date_of_cell pd (xl_Date x) \<noteq> None \<and>
                xl_Sector x \<noteq> None \<and> xl_MtCO2_per_day x \<noteq> None)"

definition cleaned :: "pandas \<Rightarrow> xl_row \<Rightarrow> row" where
  "cleaned pd x =
     \<lparr>State = the (xl_State x), Date = the (date_of_cell pd (xl_Date x)),
      Sector = the (xl_Sector x), Emissions = the (xl_MtCO2_per_day x),
      Year = year (the (date_of_cell pd (xl_Date x))),
      Month = month_name (the (date_of_cell pd (xl_Date x)))\<rparr>"

text \<open>The order of the ranking: larger total first, equal totals by name ascending.\<close>

definition ranks_before :: "string \<times> real \<Rightarrow> string \<times> real \<Rightarrow> bool" where
  "ranks_before a b = (snd b < snd a \<or> (snd a = snd b \<and> fst a < fst b))"



subsection \<open>Example data\<close>

text \<open>
  The three records of the example of the specification, as a sheet with text dates, and
  as the frame they are loaded to.
\<close>

definition example_sheet :: "xl_row list" where
  "example_sheet =
     [\<lparr>xl_State = Some ''Shandong'', xl_Date = Some (DateText ''01/01/2023''),
       xl_Sector = Some ''Power'', xl_MtCO2_per_day = Some 10\<rparr>,
      \<lparr>xl_State = Some ''Shandong'', xl_Date = Some (DateText ''01/01/2023''),
       xl_Sector = Some ''Industry'', xl_MtCO2_per_day = Some 5\<rparr>,
      \<lparr>xl_State = Some ''Beijing'', xl_Date = Some (DateText ''02/01/2023''),
       xl_Sector = Some ''Power'', xl_MtCO2_per_day = Some 2\<rparr>]"

definition example_source :: source where
  "example_source = Workbook [''State'', ''Date'', ''Sector'', ''MtCO2 per day''] example_sheet"

definition example_records :: "row list" where
  "example_records =
     [\<lparr>State = ''Shandong'', Date = \<lparr>year = 2023, month = January, day = 1\<rparr>,
       Sector = ''Power'', Emissions = 10, Year = 2023, Month = ''January''\<rparr>,
      \<lparr>State = ''Shandong'', Date = \<lparr>year = 2023, month = January, day = 1\<rparr>,
       Sector = ''Industry'', Emissions = 5, Year = 2023, Month = ''January''\<rparr>,
      \<lparr>State = ''Beijing'', Date = \<lparr>year = 2023, month = January, day = 2\<rparr>,
       Sector = ''Power'', Emissions = 2, Year = 2023, Month = ''January''\<rparr>]"

text \<open>The same sheet without the column \<^verbatim>\<open>Sector\<close>.\<close>

definition source_without_sector :: source where
  "source_without_sector = Workbook [''State'', ''Date'', ''MtCO2 per day''] example_sheet"

text \<open>A sheet whose dates are texts in year-month-day order.\<close>

definition source_iso_dates :: source where
  "source_iso_dates =
     Workbook [''State'', ''Date'', ''Sector'', ''MtCO2 per day'']
       [\<lparr>xl_State = Some ''Shandong'', xl_Date = Some (DateText ''2023-01-01''),
         xl_Sector = Some ''Power'', xl_MtCO2_per_day = Some 10\<rparr>]"

text \<open>A sheet with a header and one row whose emissions cell is blank.\<close>

definition source_blank_value :: source where
  "source_blank_value =
     Workbook [''State'', ''Date'', ''Sector'', ''MtCO2 per day'']
       [\<lparr>xl_State = Some ''Shandong'', xl_Date = Some (DateText ''01/01/2023''),
         xl_Sector = Some ''Power'', xl_MtCO2_per_day = None\<rparr>]"

text \<open>
  A sheet with dates in several months, as texts and as a native date, with a date text
  that pandas reads as \<^verbatim>\<open>NaT\<close>, a blank region and a region text that is read as a
  missing value; and the frame it is loaded to.
\<close>

definition calendar_sheet :: "xl_row list" where
  "calendar_sheet =
     [\<lparr>xl_State = Some ''Guangdong'', xl_Date = Some (DateText ''15/03/2024''),
       xl_Sector = Some ''Power'', xl_MtCO2_per_day = Some 3\<rparr>,
      \<lparr>xl_State = Some ''Hebei'',
       xl_Date = Some (DateValue \<lparr>year = 2023, month = December, day = 31\<rparr>),
       xl_Sector = Some ''Industry'', xl_MtCO2_per_day = Some 4\<rparr>,
      \<lparr>xl_State = Some ''Hubei'', xl_Date = Some (DateText ''NaT''),
       xl_Sector = Some ''Power'', xl_MtCO2_per_day = Some 1\<rparr>,
      \<lparr>xl_State = None, xl_Date = Some (DateText ''01/07/2024''),
       xl_Sector = Some ''Power'', xl_MtCO2_per_day = Some 2\<rparr>,
      \<lparr>xl_State = Some ''NA'', xl_Date = Some (DateText ''01/08/2024''),
       xl_Sector = Some ''Power'', xl_MtCO2_per_day = Some 2\<rparr>,
      \<lparr>xl_State = Some ''Hunan'', xl_Date = Some (DateText ''29/02/2024''),
       xl_Sector = Some ''Aviation'', xl_MtCO2_per_day = Some 6\<rparr>]"

definition calendar_source :: source where
  "calendar_source =
     Workbook [''State'', ''Date'', ''Sector'', ''MtCO2 per day''] calendar_sheet"

definition calendar_records :: "row list" where
  "calendar_records =
     [\<lparr>State = ''Guangdong'', Date = \<lparr>year = 2024, month = March, day = 15\<rparr>,
       Sector = ''Power'', Emissions = 3, Year = 2024, Month = ''March''\<rparr>,
      \<lparr>State = ''Hebei'', Date = \<lparr>year = 2023, month = December, day = 31\<rparr>,
       Sector = ''Industry'', Emissions = 4, Year = 2023, Month = ''December''\<rparr>,
      \<lparr>State = ''Hunan'', Date = \<lparr>year = 2024, month = February, day = 29\<rparr>,
       Sector = ''Aviation'', Emissions = 6, Year = 2024, Month = ''February''\<rparr>]"

text \<open>A sheet with one date, of the year 1500, outside the nanosecond range.\<close>

definition source_year_1500 :: source where
  "source_year_1500 =
     Workbook [''State'', ''Date'', ''Sector'', ''MtCO2 per day'']
       [\<lparr>xl_State = Some ''Shandong'', xl_Date = Some (DateText ''01/01/1500''),
         xl_Sector = Some ''Power'', xl_MtCO2_per_day = Some 10\<rparr>]"


text \<open>A selection that names one region and two sectors, and the records it keeps.\<close>

definition example_selection :: selection where
  "example_selection =
     \<lparr>selected_years = [], selected_provinces = [''Shandong''],
      selected_sectors = [''Power'', ''Industry'']\<rparr>"

definition shandong_records :: "row list" where
  "shandong_records =
     [\<lparr>State = ''Shandong'', Date = \<lparr>year = 2023, month = January, day = 1\<rparr>,
       Sector = ''Power'', Emissions = 10, Year = 2023, Month = ''January''\<rparr>,
      \<lparr>State = ''Shandong'', Date = \<lparr>year = 2023, month = January, day = 1\<rparr>,
       Sector = ''Industry'', Emissions = 5, Year = 2023, Month = ''January''\<rparr>]"

text \<open>The selection of the example of the specification: one year, no region, one sector.\<close>

definition power_2023_selection :: selection where
  "power_2023_selection =
     \<lparr>selected_years = [2023], selected_provinces = [], selected_sectors = [''Power'']\<rparr>"

definition power_records :: "row list" where
  "power_records =
     [\<lparr>State = ''Shandong'', Date = \<lparr>year = 2023, month = January, day = 1\<rparr>,
       Sector = ''Power'', Emissions = 10, Year = 2023, Month = ''January''\<rparr>,
      \<lparr>State = ''Beijing'', Date = \<lparr>year = 2023, month = January, day = 2\<rparr>,
       Sector = ''Power'', Emissions = 2, Year = 2023, Month = ''January''\<rparr>]"

definition empty_selection :: selection where
  "empty_selection = \<lparr>selected_years = [], selected_provinces = [], selected_sectors = []\<rparr>"

section \<open>Facts about the model\<close>

subsection \<open>Distinct values and the comparisons of the query\<close>

lemma set_unique: "set (unique xs) = set xs"
  by (induction xs rule: unique.induct) auto

lemma distinct_unique: "distinct (unique xs)"
  by (induction xs rule: unique.induct) (auto simp: set_unique)

lemma unique_distinct: "distinct xs \<Longrightarrow> unique xs = xs"
proof (induction xs)
  case Nil
  show ?case by simp
next
  case (Cons a xs)
  then have "filter (\<lambda>y. y \<noteq> a) xs = xs" by (auto simp: filter_id_conv)
  with Cons show ?case by simp
qed

lemma length_unique_le: "length (unique xs) \<le> length xs"
proof (induction xs rule: unique.induct)
  case 1
  show ?case by simp
next
  case (2 x xs)
  have "length (filter (\<lambda>y. y \<noteq> x) xs) \<le> length xs" by simp
  with 2 have "length (unique (filter (\<lambda>y. y \<noteq> x) xs)) \<le> length xs"
    by (rule le_trans)
  then show ?case by simp
qed

lemma length_unique_eq: "length (unique xs) = length xs \<longleftrightarrow> distinct xs"
proof
  assume "length (unique xs) = length xs"
  then have "card (set xs) = length xs"
    using distinct_card [OF distinct_unique, of xs] by (simp add: set_unique)
  then show "distinct xs" by (rule card_distinct)
next
  assume "distinct xs"
  then show "length (unique xs) = length xs" by (simp add: unique_distinct)
qed

lemma select_rows_map: "select_rows df (map P df) = filter P df"
  by (induction df) (auto simp: select_rows_def)

lemma map2_conj_map: "map2 (\<and>) (map P xs) (map Q xs) = map (\<lambda>x. P x \<and> Q x) xs"
  by (induction xs) auto

lemma map2_eq_self: "map2 (=) xs xs = map (\<lambda>x. True) xs"
  by (induction xs) auto

lemma query_eq_list: "query_eq (map f df) (PyList vs) = Inr (map (\<lambda>r. f r \<in> set vs) df)"
  by (simp add: comp_def)

lemma query_eq_unique:
  "query_eq (map f df) (NdArray (unique (map f df))) =
     (if distinct (map f df) then Inr (map (\<lambda>r. True) df)
      else Inl (LengthsMustMatch (length df) (length (unique (map f df)))))"
proof (cases "distinct (map f df)")
  case True
  then have "unique (map f df) = map f df" by (rule unique_distinct)
  with True show ?thesis by (simp add: map2_eq_self comp_def)
next
  case False
  then have "length (unique (map f df)) \<noteq> length (map f df)"
    using length_unique_eq [of "map f df"] by blast
  with False show ?thesis by auto
qed


lemma query_parts:
  assumes "query_eq (map Year df) ys = Inr (map P1 df)"
    and "query_eq (map State df) ps = Inr (map P2 df)"
    and "query_eq (map Sector df) ss = Inr (map P3 df)"
  shows "query df ys ps ss = Inr (filter (\<lambda>r. P1 r \<and> P2 r \<and> P3 r) df)"
  using assms by (simp add: query_def map2_conj_map select_rows_map conj_assoc)

lemma fallback_array:
  "query_eq (map f df) (if sel = [] then NdArray (unique (map f df)) else PyList sel) =
     (if sel = [] \<and> \<not> distinct (map f df)
      then Inl (LengthsMustMatch (length df) (length (unique (map f df))))
      else Inr (map (\<lambda>r. f r \<in> (if sel = [] then set (map f df) else set sel)) df))"
proof (cases "sel = []")
  case True
  have "map (\<lambda>r. True) df = map (\<lambda>r. f r \<in> set (map f df)) df"
    by (rule map_cong) auto
  with True show ?thesis by (simp only: query_eq_unique if_True simp_thms split: if_splits) simp
next
  case False
  then show ?thesis by (simp add: query_eq_list)
qed

lemma fallback_years:
  "query_eq (map Year df) (if sel = [] then all_years df else PyList sel) =
     Inr (map (\<lambda>r. Year r \<in> (if sel = [] then set (map Year df) else set sel)) df)"
  by (simp add: all_years_def set_unique comp_def)

text \<open>
  What the filter of the script does: it raises when the region selection is empty and two
  rows share a region, or when the sector selection is empty and two rows share a sector;
  otherwise it returns the subsequence of the specification.
\<close>

lemma df_filtered_eq:
  "df_filtered df s =
     (if selected_provinces s = [] \<and> \<not> distinct (map State df)
      then Inl (LengthsMustMatch (length df) (length (unique (map State df))))
      else if selected_sectors s = [] \<and> \<not> distinct (map Sector df)
      then Inl (LengthsMustMatch (length df) (length (unique (map Sector df))))
      else Inr (filter_spec df s))"
proof -
  let ?ps = "if selected_provinces s = [] then all_provinces df else PyList (selected_provinces s)"
  let ?ss = "if selected_sectors s = [] then all_sectors df else PyList (selected_sectors s)"
  let ?ys = "if selected_years s = [] then all_years df else PyList (selected_years s)"
  have ps: "query_eq (map State df) ?ps =
     (if selected_provinces s = [] \<and> \<not> distinct (map State df)
      then Inl (LengthsMustMatch (length df) (length (unique (map State df))))
      else Inr (map (\<lambda>r. State r \<in> (if selected_provinces s = [] then set (map State df)
                                         else set (selected_provinces s))) df))"
    unfolding all_provinces_def by (rule fallback_array)
  have ss: "query_eq (map Sector df) ?ss =
     (if selected_sectors s = [] \<and> \<not> distinct (map Sector df)
      then Inl (LengthsMustMatch (length df) (length (unique (map Sector df))))
      else Inr (map (\<lambda>r. Sector r \<in> (if selected_sectors s = [] then set (map Sector df)
                                         else set (selected_sectors s))) df))"
    unfolding all_sectors_def by (rule fallback_array)
  note ys = fallback_years [of df "selected_years s"]
  show ?thesis
  proof (cases "selected_provinces s = [] \<and> \<not> distinct (map State df)")
    case True
    have p: "query_eq (map State df) ?ps =
        Inl (LengthsMustMatch (length df) (length (unique (map State df))))"
      unfolding ps using True by simp
    have "df_filtered df s = Inl (LengthsMustMatch (length df) (length (unique (map State df))))"
      unfolding df_filtered_def query_def by (simp only: ys p sum.case)
    with True show ?thesis by simp
  next
    case np: False
    have p: "query_eq (map State df) ?ps =
        Inr (map (\<lambda>r. State r \<in> (if selected_provinces s = [] then set (map State df)
                                      else set (selected_provinces s))) df)"
      unfolding ps using np by simp
    show ?thesis
    proof (cases "selected_sectors s = [] \<and> \<not> distinct (map Sector df)")
      case True
      have q: "query_eq (map Sector df) ?ss =
          Inl (LengthsMustMatch (length df) (length (unique (map Sector df))))"
        unfolding ss using True by simp
      have "df_filtered df s = Inl (LengthsMustMatch (length df) (length (unique (map Sector df))))"
        unfolding df_filtered_def query_def by (simp only: ys p q sum.case)
      with np True show ?thesis by auto
    next
      case False
      have q: "query_eq (map Sector df) ?ss =
          Inr (map (\<lambda>r. Sector r \<in> (if selected_sectors s = [] then set (map Sector df)
                                         else set (selected_sectors s))) df)"
        unfolding ss using False by simp
      have "df_filtered df s = Inr (filter_spec df s)"
        unfolding df_filtered_def filter_spec_def using ys p q by (rule query_parts)
      with np False show ?thesis by auto
    qed
  qed
qed

subsection \<open>The filter applied to its own result\<close>

lemma filter_spec_subset: "set (filter_spec D s) \<subseteq> set D"
  by (auto simp: filter_spec_def)

lemma filter_spec_fixed: "filter_spec (filter_spec D s) s = filter_spec D s"
proof -
  let ?f = "filter_spec D s"
  have "\<forall>r\<in>set ?f.
        Year r \<in> (if selected_years s = [] then set (map Year ?f) else set (selected_years s)) \<and>
        State r \<in> (if selected_provinces s = [] then set (map State ?f) else set (selected_provinces s)) \<and>
        Sector r \<in> (if selected_sectors s = [] then set (map Sector ?f) else set (selected_sectors s))"
  proof
    fix r assume r: "r \<in> set ?f"
    then have "Year r \<in> (if selected_years s = [] then set (map Year D) else set (selected_years s))"
      and "State r \<in> (if selected_provinces s = [] then set (map State D) else set (selected_provinces s))"
      and "Sector r \<in> (if selected_sectors s = [] then set (map Sector D) else set (selected_sectors s))"
      by (simp_all add: filter_spec_def)
    with r show "Year r \<in> (if selected_years s = [] then set (map Year ?f) else set (selected_years s)) \<and>
        State r \<in> (if selected_provinces s = [] then set (map State ?f) else set (selected_provinces s)) \<and>
        Sector r \<in> (if selected_sectors s = [] then set (map Sector ?f) else set (selected_sectors s))"
      by (auto split: if_splits)
  qed
  then have "filter_spec ?f s = ?f"
    unfolding filter_spec_def [of ?f s] by (simp only: filter_id_conv)
  then show ?thesis .
qed

lemma distinct_filter_spec: "distinct (map f D) \<Longrightarrow> distinct (map f (filter_spec D s))"
  unfolding filter_spec_def by (rule distinct_map_filter)

subsection \<open>Group sums and the ranking\<close>







lemma ranks_before_descending:
  "sorted_wrt ranks_before xs \<Longrightarrow> sorted_wrt (\<lambda>a b. snd b \<le> snd a) xs"
  by (rule sorted_wrt_mono_rel [where P = ranks_before]) (auto simp: ranks_before_def)






subsection \<open>The branches of \<^verbatim>\<open>load_data\<close>\<close>

lemma split_slash_Some: "split_slash s = Some (a, r) \<Longrightarrow> s = a @ CHR ''/'' # r"
proof -
  assume h: "split_slash s = Some (a, r)"
  then obtain c where d: "dropWhile (\<lambda>c. c \<noteq> CHR ''/'') s = c # r"
    and a: "a = takeWhile (\<lambda>c. c \<noteq> CHR ''/'') s"
    by (auto simp: split_slash_def split: list.splits)
  from d have "c = CHR ''/''" using hd_dropWhile [of "\<lambda>c. c \<noteq> CHR ''/''" s] by auto
  with d a show ?thesis using takeWhile_dropWhile_id [of "\<lambda>c. c \<noteq> CHR ''/''" s] by simp
qed

lemma strptime_dmy_order:
  assumes "strptime_dmy s = Some t"
  shows "\<exists>ds ms ys. s = ds @ ''/'' @ ms @ ''/'' @ ys \<and> day_field ds = Some (day t) \<and>
           month_field ms = Some (month t) \<and> year_field ys = Some (year t)"
proof -
  from assms obtain ds r ms ys d m y
    where 1: "split_slash s = Some (ds, r)" and 2: "split_slash r = Some (ms, ys)"
      and 3: "day_field ds = Some d" "month_field ms = Some m" "year_field ys = Some y"
      and 4: "t = \<lparr>year = y, month = m, day = d\<rparr>"
    by (auto simp: strptime_dmy_def split: option.splits if_splits)
  from 1 2 have "s = ds @ ''/'' @ ms @ ''/'' @ ys"
    by (auto dest!: split_slash_Some)
  with 3 4 show ?thesis by auto
qed

lemma date_of_cell_Inr: "convert_cell pd c = Inr t \<Longrightarrow> date_of_cell pd c = t"
  by (simp add: date_of_cell_def)

lemma to_datetime_ok:
  "\<forall>c\<in>set col. \<not> isl (convert_cell pd c) \<Longrightarrow>
   to_datetime pd col = Inr (map (date_of_cell pd) col)"
proof (induction col)
  case Nil
  show ?case by simp
next
  case (Cons c cs)
  then obtain t where t: "convert_cell pd c = Inr t"
    by (cases "convert_cell pd c") auto
  with Cons show ?case by (simp add: date_of_cell_Inr)
qed

lemma to_datetime_fail:
  "c \<in> set col \<Longrightarrow> isl (convert_cell pd c) \<Longrightarrow>
   \<exists>c' e. c' \<in> set col \<and> convert_cell pd c' = Inl e \<and> to_datetime pd col = Inl e"
proof (induction col)
  case Nil
  then show ?case by simp
next
  case (Cons c0 cs)
  show ?case
  proof (cases "convert_cell pd c0")
    case (Inl e)
    then show ?thesis by auto
  next
    case (Inr t)
    with Cons.prems have "c \<in> set cs" by auto
    with Cons obtain c' e where "c' \<in> set cs" "convert_cell pd c' = Inl e"
      "to_datetime pd cs = Inl e" by blast
    with Inr show ?thesis by auto
  qed
qed

lemma datetime_values_eq:
  "list_all (\<lambda>c. case c of None \<Rightarrow> True | Some (DateValue t) \<Rightarrow> in_bounds pd t
                         | Some (DateText s) \<Rightarrow> False) col \<Longrightarrow>
   datetime_values col = map (date_of_cell pd) col"
  by (induction col)
     (auto simp: datetime_values_def date_of_cell_def convert_cell_def
        split: option.splits date_cell.splits)

lemma typed_column_converts:
  "list_all (\<lambda>c. case c of None \<Rightarrow> True | Some (DateValue t) \<Rightarrow> in_bounds pd t
                         | Some (DateText s) \<Rightarrow> False) col \<Longrightarrow>
   c \<in> set col \<Longrightarrow> \<not> isl (convert_cell pd c)"
  by (auto simp: list_all_iff convert_cell_def split: option.splits date_cell.splits)

lemma convert_dates_ok:
  assumes "\<forall>x\<in>set rows. \<not> isl (convert_cell pd (xl_Date x))"
  shows "convert_dates pd rows = Inr (map (\<lambda>x. date_of_cell pd (xl_Date x)) rows)"
proof -
  from assms have "\<forall>c\<in>set (map xl_Date rows). \<not> isl (convert_cell pd c)" by auto
  then have "to_datetime pd (map xl_Date rows) = Inr (map (date_of_cell pd) (map xl_Date rows))"
    by (rule to_datetime_ok)
  then have t: "to_datetime pd (map xl_Date rows) = Inr (map (\<lambda>x. date_of_cell pd (xl_Date x)) rows)"
    by (simp add: comp_def)
  show ?thesis
  proof (cases "is_datetime64_any_dtype pd (map xl_Date rows)")
    case True
    then have "datetime_values (map xl_Date rows) = map (date_of_cell pd) (map xl_Date rows)"
      by (intro datetime_values_eq) (simp add: is_datetime64_any_dtype_def)
    with True show ?thesis by (simp add: convert_dates_def comp_def)
  next
    case False
    with t show ?thesis by (simp add: convert_dates_def)
  qed
qed

lemma convert_dates_fail:
  assumes "x \<in> set rows" and "isl (convert_cell pd (xl_Date x))"
  shows "\<exists>e. (\<exists>y\<in>set rows. convert_cell pd (xl_Date y) = Inl e) \<and>
              convert_dates pd rows = Inl e"
proof -
  from assms(1) have in_col: "xl_Date x \<in> set (map xl_Date rows)" by simp
  have "\<not> list_all (\<lambda>c. case c of None \<Rightarrow> True | Some (DateValue t) \<Rightarrow> in_bounds pd t
                         | Some (DateText s) \<Rightarrow> False) (map xl_Date rows)"
    using typed_column_converts [OF _ in_col] assms(2) by blast
  then have "convert_dates pd rows = to_datetime pd (map xl_Date rows)"
    by (simp add: convert_dates_def is_datetime64_any_dtype_def)
  with to_datetime_fail [OF in_col assms(2)] show ?thesis by auto
qed

lemma complete_derive:
  "complete (derive x (date_of_cell pd (xl_Date x))) =
     (if kept pd x then Some (cleaned pd x) else None)"
  by (auto simp: complete_def derive_def kept_def cleaned_def split: option.splits)

lemma dropna_derive:
  "dropna (map2 derive rows (map (\<lambda>x. date_of_cell pd (xl_Date x)) rows)) =
     map (cleaned pd) (filter (kept pd) rows)"
  by (induction rows) (simp_all add: dropna_def map_filter_simps complete_derive)

lemma read_excel_ok:
  "set usecols \<subseteq> set header \<Longrightarrow>
   read_excel pd (Workbook header body) usecols = Inr (map (read_row pd) body)"
proof -
  assume "set usecols \<subseteq> set header"
  then have "filter (\<lambda>c. c \<notin> set header) usecols = []" by (auto simp: filter_empty_conv)
  then show ?thesis by (simp add: read_excel_def)
qed

lemma read_excel_missing:
  "\<not> set usecols \<subseteq> set header \<Longrightarrow>
   read_excel pd (Workbook header body) usecols =
     Inl (UsecolsMismatch (filter (\<lambda>c. c \<notin> set header) usecols))"
proof -
  assume "\<not> set usecols \<subseteq> set header"
  then have "filter (\<lambda>c. c \<notin> set header) usecols \<noteq> []" by (auto simp: filter_empty_conv)
  then show ?thesis by (simp add: read_excel_def split: list.splits)
qed

lemma load_data_unreadable:
  "load_data pd Unreadable =
     ([Critical_Error_loading_data SourceUnreadable, Info_openpyxl_or_corrupt, Info_Filepath_used],
      Inr [])"
  by (simp add: load_data_def read_excel_def)

lemma load_data_missing:
  "\<not> set relevant_cols \<subseteq> set header \<Longrightarrow>
   load_data pd (Workbook header body) =
     ([Critical_Error_loading_data
         (UsecolsMismatch (filter (\<lambda>c. c \<notin> set header) relevant_cols)),
       Info_openpyxl_or_corrupt, Info_Filepath_used], Inr [])"
  by (simp add: load_data_def read_excel_missing)

lemma load_data_no_rows:
  "set relevant_cols \<subseteq> set header \<Longrightarrow>
   load_data pd (Workbook header []) = ([Warning_Data_loaded_but_empty], Inr [])"
  by (simp add: load_data_def read_excel_ok)

lemma load_data_date_error:
  "set relevant_cols \<subseteq> set header \<Longrightarrow> convert_dates pd (map (read_row pd) body) = Inl e \<Longrightarrow>
   load_data pd (Workbook header body) =
     ([Error_converting_Date_column e, Info_check_Date_format], Inr [])"
proof -
  assume h: "set relevant_cols \<subseteq> set header"
    and c: "convert_dates pd (map (read_row pd) body) = Inl e"
  have "body \<noteq> []"
  proof
    assume "body = []"
    with c show False by (simp add: convert_dates_def is_datetime64_any_dtype_def)
  qed
  with h c show ?thesis by (simp add: load_data_def read_excel_ok)
qed

lemma load_data_loaded:
  assumes "set relevant_cols \<subseteq> set header" and "body \<noteq> []"
    and "\<forall>x\<in>set (map (read_row pd) body). \<not> isl (convert_cell pd (xl_Date x))"
  shows "load_data pd (Workbook header body) =
    ([], Inr (map (cleaned pd) (filter (kept pd) (map (read_row pd) body))))"
proof -
  have r: "read_excel pd (Workbook header body) relevant_cols = Inr (map (read_row pd) body)"
    using assms(1) by (rule read_excel_ok)
  have c: "convert_dates pd (map (read_row pd) body) =
      Inr (map (\<lambda>x. date_of_cell pd (xl_Date x)) (map (read_row pd) body))"
    using assms(3) by (rule convert_dates_ok)
  have d: "dropna (map2 derive (map (read_row pd) body)
        (map (\<lambda>x. date_of_cell pd (xl_Date x)) (map (read_row pd) body))) =
      map (cleaned pd) (filter (kept pd) (map (read_row pd) body))"
    by (rule dropna_derive)
  show ?thesis
    using assms(2) by (simp only: load_data_def r c d sum.case map_is_Nil_conv if_False)
qed

lemma load_data_returns: "\<exists>out ds. load_data pd src = (out, Inr ds)"
proof (cases src)
  case Unreadable
  then show ?thesis by (simp add: load_data_unreadable)
next
  case (Workbook header body)
  show ?thesis
  proof (cases "set relevant_cols \<subseteq> set header")
    case False
    with Workbook show ?thesis by (simp add: load_data_missing)
  next
    case True
    with Workbook show ?thesis
      by (cases "convert_dates pd (map (read_row pd) body)")
         (auto simp: load_data_def read_excel_ok)
  qed
qed

lemma load_data_rows:
  "snd (load_data pd (Workbook header body)) = Inr [] \<or>
   snd (load_data pd (Workbook header body)) =
     Inr (map (cleaned pd) (filter (kept pd) (map (read_row pd) body)))"
proof (cases "set relevant_cols \<subseteq> set header")
  case False
  then show ?thesis by (simp add: load_data_missing)
next
  case True
  show ?thesis
  proof (cases "convert_dates pd (map (read_row pd) body)")
    case (Inl e)
    with True show ?thesis by (simp add: load_data_date_error)
  next
    case (Inr ts)
    show ?thesis
    proof (cases "body = []")
      case True
      with \<open>set relevant_cols \<subseteq> set header\<close> show ?thesis by (simp add: load_data_no_rows)
    next
      case False
      have "\<forall>x\<in>set (map (read_row pd) body). \<not> isl (convert_cell pd (xl_Date x))"
      proof (intro ballI notI)
        fix x assume "x \<in> set (map (read_row pd) body)" "isl (convert_cell pd (xl_Date x))"
        from convert_dates_fail [OF this] Inr show False by auto
      qed
      from load_data_loaded [OF True False this] show ?thesis by simp
    qed
  qed
qed

lemma kept_fields:
  assumes "kept pd x"
  shows "xl_State x = Some (State (cleaned pd x)) \<and>
         date_of_cell pd (xl_Date x) = Some (Date (cleaned pd x)) \<and>
         xl_Sector x = Some (Sector (cleaned pd x)) \<and>
         xl_MtCO2_per_day x = Some (Emissions (cleaned pd x))"
  using assms by (auto simp: kept_def cleaned_def)

lemma kept_date:
  assumes "kept pd x"
  shows "(case xl_Date x of
            None \<Rightarrow> False
          | Some (DateValue t) \<Rightarrow> Date (cleaned pd x) = t
          | Some (DateText s) \<Rightarrow> strptime_dmy s = Some (Date (cleaned pd x)))"
  using assms
  by (auto simp: kept_def cleaned_def date_of_cell_def convert_cell_def
      split: option.splits date_cell.splits if_splits)

section \<open>Evaluation on the example data\<close>

lemmas example_defs = example_sheet_def example_source_def example_records_def
  source_without_sector_def source_iso_dates_def source_blank_value_def
  example_selection_def shandong_records_def power_2023_selection_def power_records_def
  empty_selection_def calendar_sheet_def calendar_source_def calendar_records_def
  source_year_1500_def

lemmas parse_defs = strptime_dmy_def split_slash_def digit_def days_in_month_def is_leap_def
  month_field_def month_of_number_def

lemmas load_defs = load_data_def read_excel_def relevant_cols_def convert_dates_def
  is_datetime64_any_dtype_def datetime_values_def derive_def dropna_def complete_def
  map_filter_simps month_name_def read_row_def na_text_def na_date_def convert_cell_def
  pandas_2_def ns_bounds_def month_number_def

lemmas filter_defs = df_filtered_def query_def all_years_def all_provinces_def all_sectors_def
  select_rows_def


lemma load_example: "load_data pandas_2 example_source = ([], Inr example_records)"
  by (simp add: example_defs load_defs parse_defs)

lemma load_without_sector:
  "load_data pandas_2 source_without_sector =
     ([Critical_Error_loading_data (UsecolsMismatch [''Sector'']), Info_openpyxl_or_corrupt,
       Info_Filepath_used], Inr [])"
  by (simp add: example_defs load_defs)

lemma load_iso_dates:
  "load_data pandas_2 source_iso_dates =
     ([Error_converting_Date_column (TimeDataMismatch ''2023-01-01''), Info_check_Date_format],
      Inr [])"
  by (simp add: example_defs load_defs parse_defs)

lemma load_blank_value: "load_data pandas_2 source_blank_value = ([], Inr [])"
  by (simp add: example_defs load_defs parse_defs)

lemma load_year_1500:
  "load_data pandas_2 source_year_1500 =
     ([Error_converting_Date_column OutOfBoundsDatetime, Info_check_Date_format], Inr [])"
  by (simp add: example_defs load_defs parse_defs)

lemma load_calendar: "load_data pandas_2 calendar_source = ([], Inr calendar_records)"
  by (simp add: example_defs load_defs parse_defs)

lemma filter_example:
  "df_filtered example_records example_selection = Inr shandong_records"
  by (simp add: example_defs filter_defs)

lemma filter_shandong:
  "df_filtered shandong_records example_selection = Inr shandong_records"
  by (simp add: example_defs filter_defs)

section \<open>The claims\<close>

subsection \<open>C1: the filter returns the matching subsequence\<close>

text \<open>
  Claim C1 says that, for every dataset and every selection, the filter returns the
  subsequence of the records whose year, region and sector are selected, an empty selection
  standing for all values. The script prepares exactly this (lines 107 to 113, under the
  comment that an empty filter uses all data to avoid errors), but for regions and sectors
  the replacement value is the numpy array of \<^verbatim>\<open>unique()\<close>, which the query compares
  position by position instead of testing membership. On the example of the specification
  (year 2023, no region, sector Power) the query raises, where the claim expects the two
  Power records.
\<close>

theorem cleared_region_selection_raises:
  "df_filtered example_records power_2023_selection = Inl (LengthsMustMatch 3 2) \<and>
   filter_spec example_records power_2023_selection = power_records"
  by (simp add: example_defs filter_defs filter_spec_def)

subsection \<open>C2: the empty selection returns the dataset unchanged\<close>

text \<open>
  Claim C2 says that the filter with three empty selections returns the dataset unchanged.
  On the three example records the query raises instead: the two distinct regions are
  compared position by position with the three rows. The cause is the one of C1.
\<close>

theorem all_empty_selection_raises:
  "df_filtered example_records empty_selection = Inl (LengthsMustMatch 3 2) \<and>
   filter_spec example_records empty_selection = example_records"
  by (simp add: example_defs filter_defs filter_spec_def)

subsection \<open>C3: the ranking of regions\<close>




subsection \<open>C5: the filter is idempotent\<close>

text \<open>
  Claim C5: for every dataset and every selection, filtering the result of the filter
  again with the same selection gives the same result. The filter may raise; the statement
  composes the two applications as Python does, the second running only when the first
  returns.
\<close>

theorem filter_idempotent:
  "(case df_filtered D s of Inl e \<Rightarrow> Inl e | Inr f \<Rightarrow> df_filtered f s) = df_filtered D s"
proof (cases "df_filtered D s")
  case (Inl e)
  then show ?thesis by simp
next
  case (Inr f)
  then have p: "\<not> (selected_provinces s = [] \<and> \<not> distinct (map State D))"
    and q: "\<not> (selected_sectors s = [] \<and> \<not> distinct (map Sector D))"
    and f: "f = filter_spec D s"
    by (auto simp: df_filtered_eq [of D s] split: if_splits)
  from p have p': "\<not> (selected_provinces s = [] \<and> \<not> distinct (map State f))"
    unfolding f using distinct_filter_spec [of State D s] by blast
  from q have q': "\<not> (selected_sectors s = [] \<and> \<not> distinct (map Sector f))"
    unfolding f using distinct_filter_spec [of Sector D s] by blast
  have "df_filtered f s = Inr (filter_spec f s)"
    using p' q' by (simp add: df_filtered_eq [of f s])
  also have "filter_spec f s = f" unfolding f by (rule filter_spec_fixed)
  finally show ?thesis using Inr by simp
qed

text \<open>C5 on the example: the filter returns the two Shandong records, and returns them again.\<close>

theorem filter_idempotent_witness:
  "df_filtered example_records example_selection = Inr shandong_records \<and>
   df_filtered shandong_records example_selection = Inr shandong_records"
  using filter_idempotent [where D = example_records and s = example_selection]
  by (simp add: filter_example)

subsection \<open>C6: a source without a required column\<close>

text \<open>
  Claim C6 says that such a load fails with an error. It does not: on the example sheet
  without the column \<^verbatim>\<open>Sector\<close>, \<^verbatim>\<open>load_data\<close> returns normally, with the empty frame.
\<close>

theorem missing_column_load_counterexample:
  "\<not> isl (snd (load_data pandas_2 source_without_sector)) \<and>
   snd (load_data pandas_2 source_without_sector) = Inr []"
  by (simp add: load_without_sector)

text \<open>
  C6 as amended: for every sheet that lacks at least one of the four required columns,
  \<^verbatim>\<open>load_data\<close> shows the critical loading error with the exception that names the
  missing columns, and returns the empty frame, so no partial dataset.
\<close>

theorem missing_column_reported_and_empty:
  "\<not> set relevant_cols \<subseteq> set header \<Longrightarrow>
   load_data pd (Workbook header body) =
     ([Critical_Error_loading_data
         (UsecolsMismatch (filter (\<lambda>c. c \<notin> set header) relevant_cols)),
       Info_openpyxl_or_corrupt, Info_Filepath_used], Inr [])"
  by (rule load_data_missing)

text \<open>C6 as amended, on the example sheet without the column \<^verbatim>\<open>Sector\<close>.\<close>

theorem missing_column_reported_and_empty_witness:
  "\<not> set relevant_cols \<subseteq> set [''State'', ''Date'', ''MtCO2 per day''] \<and>
   load_data pandas_2 (Workbook [''State'', ''Date'', ''MtCO2 per day''] example_sheet) =
     ([Critical_Error_loading_data (UsecolsMismatch [''Sector'']),
       Info_openpyxl_or_corrupt, Info_Filepath_used], Inr [])"
proof -
  have h: "\<not> set relevant_cols \<subseteq> set [''State'', ''Date'', ''MtCO2 per day'']"
    by (simp add: relevant_cols_def)
  from missing_column_reported_and_empty [OF h, where body = example_sheet and pd = pandas_2] h
  show ?thesis by (simp add: relevant_cols_def)
qed

subsection \<open>C7: the dates are parsed as day, month, year\<close>

text \<open>
  Claim C7 says that a failed parse makes the load fail with an error. It does not: on a
  sheet whose date is the text \<^verbatim>\<open>2023-01-01\<close>, which the format refuses, \<^verbatim>\<open>load_data\<close>
  returns normally, with the empty frame.
\<close>

theorem date_parse_failure_counterexample:
  "strptime_dmy ''2023-01-01'' = None \<and>
   \<not> isl (snd (load_data pandas_2 source_iso_dates)) \<and>
   snd (load_data pandas_2 source_iso_dates) = Inr []"
  by (simp add: load_iso_dates) (simp add: parse_defs)

text \<open>
  C7 as amended, for every choice of the tables of pandas. A text that parses consists of
  a day, a month and a year, in this order, separated by \<^verbatim>\<open>/\<close>. A date text that pandas
  reads as \<^verbatim>\<open>NaT\<close> raises nothing and only leaves its own row without a date. When the
  sheet has the four columns and the conversion of one of its date cells raises, because
  the text does not match the format or because the datetime type cannot hold the date,
  \<^verbatim>\<open>load_data\<close> shows the conversion error of such a cell and returns the empty frame: no
  row is kept. When no date cell raises, the rows that \<^verbatim>\<open>dropna\<close> keeps are loaded.
\<close>

theorem date_text_day_month_year:
  "(strptime_dmy s1 = Some t \<longrightarrow>
      (\<exists>ds ms ys. s1 = ds @ ''/'' @ ms @ ''/'' @ ys \<and> day_field ds = Some (day t) \<and>
         month_field ms = Some (month t) \<and> year_field ys = Some (year t))) \<and>
   (s2 \<noteq> [] \<and> s2 \<notin> set (nat_strings pd) \<longrightarrow>
      convert_cell pd (Some (DateText s2)) =
        (case strptime_dmy s2 of
           None \<Rightarrow> Inl (TimeDataMismatch s2)
         | Some t \<Rightarrow> if in_bounds pd t then Inr (Some t) else Inl OutOfBoundsDatetime)) \<and>
   (s3 \<in> set (nat_strings pd) \<longrightarrow> convert_cell pd (Some (DateText s3)) = Inr None) \<and>
   (set relevant_cols \<subseteq> set header \<and> x \<in> set (map (read_row pd) body) \<and>
    isl (convert_cell pd (xl_Date x)) \<longrightarrow>
      (\<exists>e. (\<exists>y\<in>set (map (read_row pd) body). convert_cell pd (xl_Date y) = Inl e) \<and>
         load_data pd (Workbook header body) =
           ([Error_converting_Date_column e, Info_check_Date_format], Inr []))) \<and>
   (set relevant_cols \<subseteq> set header \<and> body \<noteq> [] \<and>
    (\<forall>x\<in>set (map (read_row pd) body). \<not> isl (convert_cell pd (xl_Date x))) \<longrightarrow>
      load_data pd (Workbook header body) =
        ([], Inr (map (cleaned pd) (filter (kept pd) (map (read_row pd) body)))))"
proof (intro conjI impI)
  assume "strptime_dmy s1 = Some t"
  then show "\<exists>ds ms ys. s1 = ds @ ''/'' @ ms @ ''/'' @ ys \<and> day_field ds = Some (day t) \<and>
         month_field ms = Some (month t) \<and> year_field ys = Some (year t)"
    by (rule strptime_dmy_order)
next
  assume "s2 \<noteq> [] \<and> s2 \<notin> set (nat_strings pd)"
  then show "convert_cell pd (Some (DateText s2)) =
        (case strptime_dmy s2 of
           None \<Rightarrow> Inl (TimeDataMismatch s2)
         | Some t \<Rightarrow> if in_bounds pd t then Inr (Some t) else Inl OutOfBoundsDatetime)"
    by (simp add: convert_cell_def)
next
  assume "s3 \<in> set (nat_strings pd)"
  then show "convert_cell pd (Some (DateText s3)) = Inr None"
    by (simp add: convert_cell_def)
next
  assume h: "set relevant_cols \<subseteq> set header \<and> x \<in> set (map (read_row pd) body) \<and>
    isl (convert_cell pd (xl_Date x))"
  then obtain e where e: "\<exists>y\<in>set (map (read_row pd) body). convert_cell pd (xl_Date y) = Inl e"
    "convert_dates pd (map (read_row pd) body) = Inl e"
    using convert_dates_fail [where x = x and rows = "map (read_row pd) body" and pd = pd]
    by blast
  with h have "load_data pd (Workbook header body) =
           ([Error_converting_Date_column e, Info_check_Date_format], Inr [])"
    using load_data_date_error [where header = header and body = body and e = e and pd = pd]
    by blast
  with e(1) show "\<exists>e. (\<exists>y\<in>set (map (read_row pd) body). convert_cell pd (xl_Date y) = Inl e) \<and>
         load_data pd (Workbook header body) =
           ([Error_converting_Date_column e, Info_check_Date_format], Inr [])"
    by blast
next
  assume "set relevant_cols \<subseteq> set header \<and> body \<noteq> [] \<and>
    (\<forall>x\<in>set (map (read_row pd) body). \<not> isl (convert_cell pd (xl_Date x)))"
  then show "load_data pd (Workbook header body) =
        ([], Inr (map (cleaned pd) (filter (kept pd) (map (read_row pd) body))))"
    using load_data_loaded [where header = header and body = body and pd = pd] by blast
qed

text \<open>
  C7 as amended, on examples with the tables of pandas 2.2: the text \<^verbatim>\<open>02/01/2023\<close> is
  the second of January; the sheet with the date \<^verbatim>\<open>2023-01-01\<close> and the sheet with a date
  of the year 1500 load to the empty frame with the conversion error; the example sheet
  loads to its three records; and of the sheet with several months the row with the date
  text \<^verbatim>\<open>NaT\<close> is dropped while the other rows are loaded.
\<close>

theorem date_text_day_month_year_witness:
  "strptime_dmy ''02/01/2023'' = Some \<lparr>year = 2023, month = January, day = 2\<rparr> \<and>
   day_field ''02'' = Some 2 \<and> month_field ''01'' = Some January \<and>
   year_field ''2023'' = Some 2023 \<and>
   convert_cell pandas_2 (Some (DateText ''2023-01-01'')) = Inl (TimeDataMismatch ''2023-01-01'') \<and>
   convert_cell pandas_2 (Some (DateText ''01/01/1500'')) = Inl OutOfBoundsDatetime \<and>
   convert_cell pandas_2 (Some (DateText ''NaT'')) = Inr None \<and>
   load_data pandas_2 source_iso_dates =
     ([Error_converting_Date_column (TimeDataMismatch ''2023-01-01''), Info_check_Date_format],
      Inr []) \<and>
   load_data pandas_2 source_year_1500 =
     ([Error_converting_Date_column OutOfBoundsDatetime, Info_check_Date_format], Inr []) \<and>
   load_data pandas_2 example_source = ([], Inr example_records) \<and>
   load_data pandas_2 calendar_source = ([], Inr calendar_records)"
proof -
  note a = date_text_day_month_year
    [where ?s1.0 = "''02/01/2023''" and t = "\<lparr>year = 2023, month = January, day = 2\<rparr>"
       and ?s2.0 = "''2023-01-01''" and ?s3.0 = "''NaT''" and pd = pandas_2
       and header = "[''State'', ''Date'', ''Sector'', ''MtCO2 per day'']"
       and x = "\<lparr>xl_State = Some ''Shandong'', xl_Date = Some (DateText ''2023-01-01''),
         xl_Sector = Some ''Power'', xl_MtCO2_per_day = Some 10\<rparr>"
       and body = "[\<lparr>xl_State = Some ''Shandong'', xl_Date = Some (DateText ''2023-01-01''),
         xl_Sector = Some ''Power'', xl_MtCO2_per_day = Some 10\<rparr>]"]
  have p: "strptime_dmy ''02/01/2023'' = Some \<lparr>year = 2023, month = January, day = 2\<rparr>"
    by (simp add: parse_defs)
  have f: "day_field ''02'' = Some 2 \<and> month_field ''01'' = Some January \<and>
      year_field ''2023'' = Some 2023"
    by (simp add: parse_defs)
  have n: "''2023-01-01'' \<noteq> [] \<and> ''2023-01-01'' \<notin> set (nat_strings pandas_2)"
    by (simp add: pandas_2_def)
  have q: "strptime_dmy ''2023-01-01'' = None" by (simp add: parse_defs)
  from a n q have c1: "convert_cell pandas_2 (Some (DateText ''2023-01-01'')) =
      Inl (TimeDataMismatch ''2023-01-01'')" by simp
  have m: "''NaT'' \<in> set (nat_strings pandas_2)" by (simp add: pandas_2_def)
  with a have c3: "convert_cell pandas_2 (Some (DateText ''NaT'')) = Inr None" by blast
  have c2: "convert_cell pandas_2 (Some (DateText ''01/01/1500'')) = Inl OutOfBoundsDatetime"
    by (simp add: convert_cell_def pandas_2_def ns_bounds_def month_number_def parse_defs)
  from p f c1 c2 c3 show ?thesis
    by (simp add: load_iso_dates load_year_1500 load_example load_calendar)
qed

subsection \<open>C8: the loaded records are consistent and complete\<close>

text \<open>
  Claim C8, for every choice of the tables of pandas and every source. In every record of
  the frame returned by \<^verbatim>\<open>load_data\<close> the year is the year of the date and the month name
  is the English name of the month of the date, January for the first month to December
  for the twelfth. The frame is empty or consists, in order, of the rows that have a
  region, a sector, an emissions value and a date cell that converts to a date; every other
  row is dropped. Each field of such a record is the value present in the cell, the date
  being the native date or the date parsed from the text, so no field is missing.
\<close>

theorem loaded_records_consistent:
  "snd (load_data pd src) = Inr ds \<Longrightarrow>
   (\<forall>r\<in>set ds. Year r = year (Date r) \<and>
      Month r =
        (case month (Date r) of
          January \<Rightarrow> ''January'' | February \<Rightarrow> ''February'' | March \<Rightarrow> ''March''
        | April \<Rightarrow> ''April'' | May \<Rightarrow> ''May'' | June \<Rightarrow> ''June''
        | July \<Rightarrow> ''July'' | August \<Rightarrow> ''August'' | September \<Rightarrow> ''September''
        | October \<Rightarrow> ''October'' | November \<Rightarrow> ''November'' | December \<Rightarrow> ''December'')) \<and>
   (ds = [] \<or>
    (\<exists>header body. src = Workbook header body \<and>
       ds = map (cleaned pd) (filter (kept pd) (map (read_row pd) body)))) \<and>
   (\<forall>x. kept pd x \<longrightarrow>
      xl_State x = Some (State (cleaned pd x)) \<and>
      xl_Sector x = Some (Sector (cleaned pd x)) \<and>
      xl_MtCO2_per_day x = Some (Emissions (cleaned pd x)) \<and>
      (case xl_Date x of
         None \<Rightarrow> False
       | Some (DateValue t) \<Rightarrow> Date (cleaned pd x) = t
       | Some (DateText s) \<Rightarrow> strptime_dmy s = Some (Date (cleaned pd x))))"
proof (intro conjI)
  assume r: "snd (load_data pd src) = Inr ds"
  have names: "Year (cleaned pd x) = year (Date (cleaned pd x)) \<and>
      Month (cleaned pd x) =
        (case month (Date (cleaned pd x)) of
          January \<Rightarrow> ''January'' | February \<Rightarrow> ''February'' | March \<Rightarrow> ''March''
        | April \<Rightarrow> ''April'' | May \<Rightarrow> ''May'' | June \<Rightarrow> ''June''
        | July \<Rightarrow> ''July'' | August \<Rightarrow> ''August'' | September \<Rightarrow> ''September''
        | October \<Rightarrow> ''October'' | November \<Rightarrow> ''November'' | December \<Rightarrow> ''December'')" for x
    by (simp add: cleaned_def month_name_def)
  have rows: "ds = [] \<or>
    (\<exists>header body. src = Workbook header body \<and>
       ds = map (cleaned pd) (filter (kept pd) (map (read_row pd) body)))"
  proof (cases src)
    case Unreadable
    with r show ?thesis by (simp add: load_data_unreadable)
  next
    case (Workbook header body)
    with r load_data_rows [where pd = pd and header = header and body = body]
    show ?thesis by auto
  qed
  then show "ds = [] \<or>
    (\<exists>header body. src = Workbook header body \<and>
       ds = map (cleaned pd) (filter (kept pd) (map (read_row pd) body)))" .
  from rows names show "\<forall>r\<in>set ds. Year r = year (Date r) \<and>
      Month r =
        (case month (Date r) of
          January \<Rightarrow> ''January'' | February \<Rightarrow> ''February'' | March \<Rightarrow> ''March''
        | April \<Rightarrow> ''April'' | May \<Rightarrow> ''May'' | June \<Rightarrow> ''June''
        | July \<Rightarrow> ''July'' | August \<Rightarrow> ''August'' | September \<Rightarrow> ''September''
        | October \<Rightarrow> ''October'' | November \<Rightarrow> ''November'' | December \<Rightarrow> ''December'')"
    by auto
next
  show "\<forall>x. kept pd x \<longrightarrow>
      xl_State x = Some (State (cleaned pd x)) \<and>
      xl_Sector x = Some (Sector (cleaned pd x)) \<and>
      xl_MtCO2_per_day x = Some (Emissions (cleaned pd x)) \<and>
      (case xl_Date x of
         None \<Rightarrow> False
       | Some (DateValue t) \<Rightarrow> Date (cleaned pd x) = t
       | Some (DateText s) \<Rightarrow> strptime_dmy s = Some (Date (cleaned pd x)))"
    using kept_fields kept_date by blast
qed

text \<open>
  C8 on the sheet with several months, with the tables of pandas 2.2: of six rows the
  three with a region and a date are loaded, as records of March, December and February;
  the sheet with a blank emissions cell loads to the empty frame.
\<close>

theorem loaded_records_consistent_witness:
  "snd (load_data pandas_2 calendar_source) = Inr calendar_records \<and>
   map Month calendar_records = [''March'', ''December'', ''February''] \<and>
   map (\<lambda>r. month (Date r)) calendar_records = [March, December, February] \<and>
   map Year calendar_records = [2024, 2023, 2024] \<and>
   map (\<lambda>r. year (Date r)) calendar_records = [2024, 2023, 2024] \<and>
   calendar_records =
     map (cleaned pandas_2) (filter (kept pandas_2) (map (read_row pandas_2) calendar_sheet)) \<and>
   map (kept pandas_2) (map (read_row pandas_2) calendar_sheet) =
     [True, True, False, False, False, True] \<and>
   snd (load_data pandas_2 source_blank_value) = Inr []"
proof -
  have h: "snd (load_data pandas_2 calendar_source) = Inr calendar_records"
    by (simp add: load_calendar)
  note a = loaded_records_consistent [OF h]
  have ne: "calendar_records \<noteq> []" by (simp add: calendar_records_def)
  from a ne have rows: "calendar_records =
     map (cleaned pandas_2) (filter (kept pandas_2) (map (read_row pandas_2) calendar_sheet))"
    by (auto simp: calendar_source_def)
  have k: "map (kept pandas_2) (map (read_row pandas_2) calendar_sheet) =
     [True, True, False, False, False, True]"
    by (simp add: calendar_sheet_def kept_def date_of_cell_def read_row_def na_text_def
        na_date_def convert_cell_def pandas_2_def ns_bounds_def month_number_def parse_defs)
  have v: "map Month calendar_records = [''March'', ''December'', ''February''] \<and>
   map (\<lambda>r. month (Date r)) calendar_records = [March, December, February] \<and>
   map Year calendar_records = [2024, 2023, 2024] \<and>
   map (\<lambda>r. year (Date r)) calendar_records = [2024, 2023, 2024]"
    by (simp add: calendar_records_def)
  from h rows k v show ?thesis by (simp add: load_blank_value)
qed

subsection \<open>C9: \<^verbatim>\<open>load_data\<close> never raises\<close>

text \<open>
  Claim C9: \<^verbatim>\<open>load_data\<close> returns for every source; for an unreadable source, for a sheet
  without a required column and for a failed date conversion it returns the empty frame;
  and this is also what it returns for a source that loads without any error and has no
  row, or no row without a blank cell.
\<close>

theorem load_data_never_raises:
  "(\<exists>out ds. load_data pd src = (out, Inr ds)) \<and>
   snd (load_data pd Unreadable) = Inr [] \<and>
   (\<not> set relevant_cols \<subseteq> set header \<longrightarrow>
      snd (load_data pd (Workbook header body)) = Inr []) \<and>
   (isl (convert_dates pd (map (read_row pd) body)) \<longrightarrow>
      snd (load_data pd (Workbook header body)) = Inr []) \<and>
   load_data pd (Workbook relevant_cols []) = ([Warning_Data_loaded_but_empty], Inr []) \<and>
   load_data pandas_2 source_blank_value = ([], Inr [])"
proof (intro conjI impI)
  show "\<exists>out ds. load_data pd src = (out, Inr ds)" by (rule load_data_returns)
  show "snd (load_data pd Unreadable) = Inr []" by (simp add: load_data_unreadable)
  show "load_data pd (Workbook relevant_cols []) = ([Warning_Data_loaded_but_empty], Inr [])"
    by (simp add: load_data_no_rows)
  show "load_data pandas_2 source_blank_value = ([], Inr [])" by (rule load_blank_value)
next
  assume "\<not> set relevant_cols \<subseteq> set header"
  then show "snd (load_data pd (Workbook header body)) = Inr []"
    by (simp add: load_data_missing)
next
  assume "isl (convert_dates pd (map (read_row pd) body))"
  then obtain e where e: "convert_dates pd (map (read_row pd) body) = Inl e"
    by (auto simp: isl_def)
  show "snd (load_data pd (Workbook header body)) = Inr []"
  proof (cases "set relevant_cols \<subseteq> set header")
    case True
    with e show ?thesis by (simp add: load_data_date_error)
  next
    case False
    then show ?thesis by (simp add: load_data_missing)
  qed
qed

text \<open>C9 on the sheet without \<^verbatim>\<open>Sector\<close> and on the sheet with year-month-day dates.\<close>

theorem load_data_never_raises_witness:
  "\<not> set relevant_cols \<subseteq> set [''State'', ''Date'', ''MtCO2 per day''] \<and>
   snd (load_data pandas_2 source_without_sector) = Inr [] \<and>
   isl (convert_dates pandas_2 (map (read_row pandas_2)
     [\<lparr>xl_State = Some ''Shandong'', xl_Date = Some (DateText ''2023-01-01''),
         xl_Sector = Some ''Power'', xl_MtCO2_per_day = Some 10\<rparr>])) \<and>
   snd (load_data pandas_2 source_iso_dates) = Inr [] \<and>
   snd (load_data pandas_2 Unreadable) = Inr []"
  using load_data_never_raises
    [where pd = pandas_2 and src = Unreadable
       and header = "[''State'', ''Date'', ''MtCO2 per day'']" and body = example_sheet]
    load_data_never_raises
    [where pd = pandas_2 and src = Unreadable
       and header = "[''State'', ''Date'', ''Sector'', ''MtCO2 per day'']"
       and body = "[\<lparr>xl_State = Some ''Shandong'', xl_Date = Some (DateText ''2023-01-01''),
         xl_Sector = Some ''Power'', xl_MtCO2_per_day = Some 10\<rparr>]"]
  by (simp add: load_without_sector load_iso_dates load_data_unreadable)
     (simp add: relevant_cols_def convert_dates_def is_datetime64_any_dtype_def read_row_def
        na_text_def na_date_def convert_cell_def pandas_2_def parse_defs)

subsection \<open>C10: the mean is taken of a non-empty frame\<close>

lemma dashboard_metrics:
  assumes "dashboard df s = Key_metrics t a"
  shows "\<exists>f. df_filtered df s = Inr f \<and> f \<noteq> [] \<and> 1 \<le> length f \<and>
           t = total_emissions f \<and> a = Some (t / real (length f))"
proof (cases "df_filtered df s")
  case (Inl e)
  with assms show ?thesis by (simp add: dashboard_def split: if_splits)
next
  case (Inr f)
  with assms have ne: "f \<noteq> []" and t: "t = total_emissions f" and a: "a = avg_daily_emissions f"
    by (simp_all add: dashboard_def split: if_splits)
  from ne have "1 \<le> length f" by (cases f) simp_all
  moreover from ne a t have "a = Some (t / real (length f))"
    by (simp add: avg_daily_emissions_def total_emissions_def)
  ultimately show ?thesis using Inr ne t by blast
qed

lemma dashboard_stops:
  "df_filtered df s = Inr [] \<Longrightarrow>
   dashboard df s = Stop_empty_load \<or> dashboard df s = Stop_no_data_for_filters"
  by (simp add: dashboard_def)

lemma app_metrics:
  assumes "app pd src s = Key_metrics t a"
  shows "\<exists>df f. snd (load_data pd src) = Inr df \<and> df_filtered df s = Inr f \<and> f \<noteq> [] \<and>
           1 \<le> length f \<and> t = total_emissions f \<and> a = Some (t / real (length f))"
proof -
  from load_data_returns [where src = src and pd = pd]
  obtain out ds where l: "load_data pd src = (out, Inr ds)" by blast
  with assms have "dashboard ds s = Key_metrics t a" by (simp add: app_def)
  from dashboard_metrics [OF this] l show ?thesis by auto
qed

lemma dashboard_example:
  "dashboard example_records example_selection = Key_metrics 15 (Some (15 / 2))"
proof -
  have "example_records \<noteq> []" by (simp add: example_records_def)
  moreover have "shandong_records \<noteq> []" by (simp add: shandong_records_def)
  moreover have "total_emissions shandong_records = 15"
    by (simp add: shandong_records_def total_emissions_def)
  moreover have "avg_daily_emissions shandong_records = Some (15 / 2)"
    by (simp add: shandong_records_def avg_daily_emissions_def)
  ultimately show ?thesis by (simp add: dashboard_def filter_example)
qed

lemma app_example:
  "app pandas_2 example_source example_selection = Key_metrics 15 (Some (15 / 2))"
  by (simp add: app_def load_example dashboard_example)

lemma filter_nothing: "df_filtered [] example_selection = Inr []"
  by (simp add: example_selection_def filter_defs)

text \<open>
  Claim C10: the script reaches the key metrics only with a filter result that is not
  empty; there the mean is the total divided by the number of records, which is at least
  one, and is never the undefined mean of an empty frame. When the filter result is empty
  the script stops before the metrics. The same holds for the whole run from the source.
\<close>

theorem mean_on_nonempty_only:
  "(dashboard df s = Key_metrics t a \<longrightarrow>
      (\<exists>f. df_filtered df s = Inr f \<and> f \<noteq> [] \<and> 1 \<le> length f \<and>
           t = total_emissions f \<and> a = Some (t / real (length f)))) \<and>
   (df_filtered df s = Inr [] \<longrightarrow>
      dashboard df s = Stop_empty_load \<or> dashboard df s = Stop_no_data_for_filters) \<and>
   (app pd src s = Key_metrics t a \<longrightarrow>
      (\<exists>df f. snd (load_data pd src) = Inr df \<and> df_filtered df s = Inr f \<and> f \<noteq> [] \<and>
           1 \<le> length f \<and> t = total_emissions f \<and> a = Some (t / real (length f))))"
  using dashboard_metrics [where df = df and s = s and t = t and a = a]
    dashboard_stops [where df = df and s = s]
    app_metrics [where src = src and s = s and t = t and a = a and pd = pd]
  by blast

text \<open>
  C10 on the example: two records are kept and the mean is 15 over 2; on an empty frame
  the script stops.
\<close>

theorem mean_on_nonempty_only_witness:
  "dashboard example_records example_selection = Key_metrics 15 (Some (15 / 2)) \<and>
   app pandas_2 example_source example_selection = Key_metrics 15 (Some (15 / 2)) \<and>
   df_filtered example_records example_selection = Inr shandong_records \<and>
   length shandong_records = 2 \<and>
   total_emissions shandong_records = 15 \<and>
   df_filtered [] example_selection = Inr [] \<and>
   dashboard [] example_selection = Stop_empty_load"
proof -
  note inst = mean_on_nonempty_only [where df = example_records and s = example_selection
      and t = 15 and a = "Some (15 / 2)" and src = example_source and pd = pandas_2]
  from inst dashboard_example
  have "\<exists>f. df_filtered example_records example_selection = Inr f \<and> f \<noteq> [] \<and> 1 \<le> length f \<and>
           15 = total_emissions f \<and> Some (15 / 2) = Some (15 / real (length f))"
    by blast
  then have "length shandong_records = 2 \<and> total_emissions shandong_records = 15"
    by (auto simp: filter_example)
  moreover have "dashboard [] example_selection = Stop_empty_load" by (simp add: dashboard_def)
  ultimately show ?thesis
    by (simp add: dashboard_example app_example filter_example filter_nothing)
qed

end
